theory Spec2Isabelle
  imports Complex_Main "HOL-Library.Sublist" "HOL-Library.AList"
begin

section \<open>Text\<close>

text \<open>
  A Python \<open>str\<close> is a sequence of Unicode code points; it is modelled as the list of
  these code points. The Persian labels and messages of the source are written out
  code point by code point; ASCII literals are converted with \<open>ascii\<close>.
\<close>

type_synonym pystr = "nat list"

definition ascii :: "string \<Rightarrow> pystr" where
  "ascii s = map of_char s"

text \<open>What an f-string prints for a value that is a \<open>str\<close> or \<open>None\<close>.\<close>

fun py_str :: "pystr option \<Rightarrow> pystr" where
  "py_str None = ascii ''None''"
| "py_str (Some s) = s"

section \<open>Locations (models.py, serializers.py)\<close>

text \<open>
  \<open>models.Location\<close>: a name, a type (a free \<open>CharField\<close>) and a nullable
  reference to the parent location.
\<close>

datatype location =
  Location (location_name: pystr) (location_type: pystr) (location_parent: "location option")

text \<open>
  The four type labels of serializers.py: \<open>Ostan\<close> is the province label,
  \<open>Shahrestan\<close> the county label, \<open>Shahr\<close> the city label and \<open>Mantaqeh\<close>
  the district label.
\<close>

definition Ostan :: pystr where
  "Ostan = [0x627, 0x633, 0x62A, 0x627, 0x646]"

definition Shahrestan :: pystr where
  "Shahrestan = [0x634, 0x647, 0x631, 0x633, 0x62A, 0x627, 0x646]"

definition Shahr :: pystr where
  "Shahr = [0x634, 0x647, 0x631]"

definition Mantaqeh :: pystr where
  "Mantaqeh = [0x645, 0x646, 0x637, 0x642, 0x647]"

text \<open>The dictionary \<open>hierarchy\<close> of \<open>LocationSerializer.validate\<close> (child: parent).\<close>

definition hierarchy :: "(pystr \<times> pystr) list" where
  "hierarchy = [(Mantaqeh, Shahr), (Shahr, Shahrestan), (Shahrestan, Ostan)]"

text \<open>\<open>hierarchy.get(loc_type)\<close>, where \<open>loc_type\<close> may be \<open>None\<close>.\<close>

fun hierarchy_get :: "pystr option \<Rightarrow> pystr option" where
  "hierarchy_get None = None"
| "hierarchy_get (Some t) = map_of hierarchy t"

text \<open>
  The validated \<open>data\<close> of a location write. A field is \<open>None\<close> when the key is
  absent from the request (a partial update); the \<open>parent\<close> key, when present, holds a
  location or null.
\<close>

record data =
  data_name :: "pystr option"
  data_type :: "pystr option"
  data_parent :: "location option option"

text \<open>\<open>serializers.ValidationError({field: message})\<close>.\<close>

datatype validation_error = ValidationError (error_field: pystr) (error_message: pystr)

text \<open>
  Lines 72 and 73: the final state of \<open>type\<close> and \<open>parent\<close>. The serializer's
  \<open>instance\<close> is \<open>None\<close> on a create.
\<close>

definition resulting_type :: "location option \<Rightarrow> data \<Rightarrow> pystr option" where
  "resulting_type inst d =
     (case data_type d of
        Some t \<Rightarrow> Some t
      | None \<Rightarrow> (case inst of None \<Rightarrow> None | Some l \<Rightarrow> Some (location_type l)))"

definition resulting_parent :: "location option \<Rightarrow> data \<Rightarrow> location option" where
  "resulting_parent inst d =
     (case data_parent d of
        Some p \<Rightarrow> p
      | None \<Rightarrow> (case inst of None \<Rightarrow> None | Some l \<Rightarrow> location_parent l))"

text \<open>The three messages, with the f-string holes filled in.\<close>

definition msg_province_parent :: pystr where
  "msg_province_parent =
     [0x6CC, 0x6A9, 0x20, 0x627, 0x633, 0x62A, 0x627, 0x646, 0x20] @ ascii ''(Province)'' @
     [0x20, 0x646, 0x645, 0x6CC, 0x200C, 0x62A, 0x648, 0x627, 0x646, 0x62F, 0x20, 0x648,
      0x627, 0x644, 0x62F, 0x20, 0x62F, 0x627, 0x634, 0x62A, 0x647, 0x20, 0x628, 0x627,
      0x634, 0x62F, 0x2E]"

definition msg_needs_parent :: "pystr option \<Rightarrow> pystr" where
  "msg_needs_parent loc_type =
     [0x6CC, 0x6A9, 0x20, 0x27] @ py_str loc_type @
     [0x27, 0x20, 0x628, 0x627, 0x6CC, 0x62F, 0x20, 0x6CC, 0x6A9, 0x20, 0x648, 0x627,
      0x644, 0x62F, 0x20, 0x62F, 0x627, 0x634, 0x62A, 0x647, 0x20, 0x628, 0x627, 0x634,
      0x62F, 0x2E]"

definition msg_wrong_parent :: "pystr option \<Rightarrow> pystr option \<Rightarrow> pystr \<Rightarrow> pystr" where
  "msg_wrong_parent loc_type required_parent_type parent_type =
     [0x648, 0x627, 0x644, 0x62F, 0x20, 0x6CC, 0x6A9, 0x20, 0x27] @ py_str loc_type @
     [0x27, 0x20, 0x628, 0x627, 0x6CC, 0x62F, 0x20, 0x627, 0x632, 0x20, 0x646, 0x648,
      0x639, 0x20, 0x27] @ py_str required_parent_type @
     [0x27, 0x20, 0x628, 0x627, 0x634, 0x62F, 0x60C, 0x20, 0x627, 0x645, 0x627, 0x20,
      0x648, 0x627, 0x644, 0x62F, 0x20, 0x627, 0x631, 0x627, 0x626, 0x647, 0x20, 0x634,
      0x62F, 0x647, 0x20, 0x627, 0x632, 0x20, 0x646, 0x648, 0x639, 0x20, 0x27] @
     parent_type @ [0x27, 0x20, 0x627, 0x633, 0x62A, 0x2E]"

text \<open>
  \<open>LocationSerializer.validate\<close>: \<open>Inl\<close> is the raised \<open>ValidationError\<close>,
  \<open>Inr\<close> the returned data.
\<close>

definition validate :: "location option \<Rightarrow> data \<Rightarrow> validation_error + data" where
  "validate inst d =
     (let loc_type = resulting_type inst d;
          parent = resulting_parent inst d
      in if loc_type = Some Ostan then
           (if parent \<noteq> None
            then Inl (ValidationError (ascii ''parent'') msg_province_parent)
            else Inr d)
         else
           (case parent of
              None \<Rightarrow> Inl (ValidationError (ascii ''parent'') (msg_needs_parent loc_type))
            | Some p \<Rightarrow>
                (let required_parent_type = hierarchy_get loc_type
                 in if Some (location_type p) \<noteq> required_parent_type
                    then Inl (ValidationError (ascii ''parent'')
                           (msg_wrong_parent loc_type required_parent_type (location_type p)))
                    else Inr d)))"

text \<open>
  The hierarchy rules in the words of the specification: a province has no parent; any
  other location has a parent, whose type is the predecessor the table gives.
\<close>

definition spec_accepts :: "pystr option \<Rightarrow> location option \<Rightarrow> bool" where
  "spec_accepts t p =
     (if t = Some Ostan then p = None
      else (case p of
              None \<Rightarrow> False
            | Some q \<Rightarrow> (case t of
                           None \<Rightarrow> False
                         | Some ty \<Rightarrow> map_of hierarchy ty = Some (location_type q))))"

section \<open>Users and the admin permission (models.py, permissions.py)\<close>

record role =
  role_name :: pystr

text \<open>
  The fields of \<open>models.User\<close> that \<open>save\<close> and the permission read.
  \<open>is_authenticated\<close> is true of every stored user.
\<close>

record user =
  contact_number :: pystr
  user_role :: "role option"
  is_staff :: bool
  is_superuser :: bool

definition role_is_admin :: "user \<Rightarrow> bool" where
  "role_is_admin u =
     (case user_role u of None \<Rightarrow> False | Some r \<Rightarrow> role_name r = ascii ''Admin'')"

text \<open>\<open>User.save\<close>: the flags are set from the role, then the row is written.\<close>

definition save :: "user \<Rightarrow> user" where
  "save u =
     (if role_is_admin u
      then u\<lparr>is_staff := True, is_superuser := True\<rparr>
      else u\<lparr>is_staff := False, is_superuser := False\<rparr>)"

text \<open>
  \<open>request.user\<close>: a stored user (always authenticated) or Django's
  \<open>AnonymousUser\<close>, which is not authenticated, is no superuser and has no
  \<open>role\<close> attribute.
\<close>

datatype principal = AnonymousUser | StoredUser user

fun is_authenticated :: "principal \<Rightarrow> bool" where
  "is_authenticated AnonymousUser = False"
| "is_authenticated (StoredUser u) = True"

text \<open>
  \<open>IsAdminOrSuperUser.has_permission\<close>; the argument is \<open>request.user\<close>, which
  may be \<open>None\<close>.
\<close>

fun has_permission :: "principal option \<Rightarrow> bool" where
  "has_permission None = False"
| "has_permission (Some AnonymousUser) = False"
| "has_permission (Some (StoredUser u)) = (is_superuser u \<or> role_is_admin u)"

section \<open>The inventory search (models.py, filters.py)\<close>

record manufacturer =
  manufacturer_name :: pystr
  country :: pystr

record drug =
  drug_id :: int
  generic_name :: pystr
  brand_name :: "pystr option"
  irc :: pystr
  form :: pystr
  drug_manufacturer :: manufacturer

record pharmacy =
  pharmacy_id :: int
  pharmacy_name :: pystr
  is_24_hours :: bool
  pharmacy_location :: location

text \<open>
  \<open>models.PharmacyInventory\<close>. The quantity is a \<open>PositiveIntegerField\<close>, the
  expiry date a day number, the price a decimal number.
\<close>

record inventory =
  inventory_drug :: drug
  inventory_pharmacy :: pharmacy
  batch_number :: "pystr option"
  expire_date :: int
  quantity :: nat
  price :: rat

text \<open>
  The cleaned values of a valid filter form of \<open>PharmacyInventoryFilter\<close>
  (\<open>form.cleaned_data\<close>), one field per declared filter (two for each range filter).
  \<open>None\<close> is a parameter that the request does not carry; \<open>Some v\<close> is a supplied
  parameter with the cleaned value \<open>v\<close>. The form's cleaning of a string strips
  surrounding whitespace, so a string supplied empty or blank has the cleaned value
  \<open>[]\<close>; the filters see cleaned values only.
  The filters \<open>manufacturer_name\<close>, \<open>pharmacy_name\<close> and \<open>batch_number\<close> carry
  the suffix \<open>_param\<close> here, since the model fields have these names already.
\<close>

record inventory_params =
  drug :: "int option"
  drug_name :: "pystr option"
  drug_brand_name :: "pystr option"
  drug_form :: "pystr option"
  drug_irc :: "pystr option"
  manufacturer_name_param :: "pystr option"
  pharmacy :: "int option"
  pharmacy_name_param :: "pystr option"
  pharmacy_is_24_hours :: "bool option"
  location_district :: "pystr option"
  location_city :: "pystr option"
  location_county :: "pystr option"
  location_province :: "pystr option"
  batch_number_param :: "pystr option"
  has_stock :: "bool option"
  expire_date_after :: "int option"
  expire_date_before :: "int option"
  price_min :: "rat option"
  price_max :: "rat option"

definition no_params :: inventory_params where
  "no_params =
     \<lparr>drug = None, drug_name = None, drug_brand_name = None, drug_form = None,
      drug_irc = None, manufacturer_name_param = None, pharmacy = None,
      pharmacy_name_param = None, pharmacy_is_24_hours = None, location_district = None,
      location_city = None, location_county = None, location_province = None,
      batch_number_param = None, has_stock = None, expire_date_after = None,
      expire_date_before = None, price_min = None, price_max = None\<rparr>"

text \<open>
  The lookups. \<open>icontains\<close> compares case-insensitively; how the database folds case
  is not part of the repository, so the folding \<open>casefold\<close> is a parameter of the model.
\<close>

definition exact :: "'a \<Rightarrow> 'a \<Rightarrow> bool" where
  "exact field_value v = (field_value = v)"

definition icontains :: "(pystr \<Rightarrow> pystr) \<Rightarrow> pystr \<Rightarrow> pystr \<Rightarrow> bool" where
  "icontains casefold field_value v = sublist (casefold v) (casefold field_value)"

text \<open>
  \<open>django_filters.CharFilter(field_name=..., lookup_expr=...)\<close>. The filter leaves the
  queryset as it is when its value is absent or the empty string; otherwise a row passes
  when the field at the end of the relation path exists (the joins are inner joins, and a
  null column matches nothing) and the lookup holds of it.
\<close>

definition char_filter ::
  "(pystr \<Rightarrow> pystr \<Rightarrow> bool) \<Rightarrow> (inventory \<Rightarrow> pystr option) \<Rightarrow> pystr option \<Rightarrow> inventory \<Rightarrow> bool"
where
  "char_filter lookup field_name value r =
     (case value of
        None \<Rightarrow> True
      | Some v \<Rightarrow>
          if v = [] then True
          else (case field_name r of None \<Rightarrow> False | Some s \<Rightarrow> lookup s v))"

text \<open>\<open>NumberFilter\<close> and \<open>BooleanFilter\<close> with \<open>lookup_expr='exact'\<close>.\<close>

definition exact_filter :: "(inventory \<Rightarrow> 'a) \<Rightarrow> 'a option \<Rightarrow> inventory \<Rightarrow> bool" where
  "exact_filter field_name value r =
     (case value of None \<Rightarrow> True | Some v \<Rightarrow> exact (field_name r) v)"

text \<open>
  The relation paths \<open>pharmacy__location__name\<close>,
  \<open>pharmacy__location__parent__name\<close>, ... of the four location filters: the
  \<open>parent\<close> link is followed a fixed number of times from the location of the pharmacy.
\<close>

fun follow_parent :: "nat \<Rightarrow> location \<Rightarrow> location option" where
  "follow_parent 0 l = Some l"
| "follow_parent (Suc n) l =
     (case location_parent l of None \<Rightarrow> None | Some p \<Rightarrow> follow_parent n p)"

definition pharmacy__location__name :: "inventory \<Rightarrow> pystr option" where
  "pharmacy__location__name r =
     map_option location_name (follow_parent 0 (pharmacy_location (inventory_pharmacy r)))"

definition pharmacy__location__parent__name :: "inventory \<Rightarrow> pystr option" where
  "pharmacy__location__parent__name r =
     map_option location_name (follow_parent 1 (pharmacy_location (inventory_pharmacy r)))"

definition pharmacy__location__parent__parent__name :: "inventory \<Rightarrow> pystr option" where
  "pharmacy__location__parent__parent__name r =
     map_option location_name (follow_parent 2 (pharmacy_location (inventory_pharmacy r)))"

definition pharmacy__location__parent__parent__parent__name :: "inventory \<Rightarrow> pystr option" where
  "pharmacy__location__parent__parent__parent__name r =
     map_option location_name (follow_parent 3 (pharmacy_location (inventory_pharmacy r)))"

text \<open>
  \<open>has_stock = BooleanFilter(field_name='quantity', lookup_expr='gt')\<close>: the supplied
  boolean is the right-hand side of \<open>quantity > ...\<close>; the integer column takes it
  as \<open>int(value)\<close>, that is 1 for true and 0 for false.
\<close>

definition int_of_bool :: "bool \<Rightarrow> nat" where
  "int_of_bool b = (if b then 1 else 0)"

definition has_stock_filter :: "bool option \<Rightarrow> inventory \<Rightarrow> bool" where
  "has_stock_filter value r =
     (case value of None \<Rightarrow> True | Some b \<Rightarrow> quantity r > int_of_bool b)"

text \<open>
  \<open>DateFromToRangeFilter\<close> and \<open>RangeFilter\<close>: \<open>range\<close> when both bounds are given,
  \<open>gte\<close> or \<open>lte\<close> when one is, no constraint when none is.
\<close>

definition range_filter ::
  "(inventory \<Rightarrow> 'a::linorder) \<Rightarrow> 'a option \<Rightarrow> 'a option \<Rightarrow> inventory \<Rightarrow> bool"
where
  "range_filter field_name start stop r =
     (case (start, stop) of
        (Some a, Some b) \<Rightarrow> a \<le> field_name r \<and> field_name r \<le> b
      | (Some a, None) \<Rightarrow> a \<le> field_name r
      | (None, Some b) \<Rightarrow> field_name r \<le> b
      | (None, None) \<Rightarrow> True)"

text \<open>
  The filters other than \<open>has_stock\<close> and the four location filters, in the order of
  their declaration.
\<close>

definition other_filters :: "(pystr \<Rightarrow> pystr) \<Rightarrow> inventory_params \<Rightarrow> inventory \<Rightarrow> bool" where
  "other_filters casefold ps r =
     (exact_filter (\<lambda>r. drug_id (inventory_drug r)) (drug ps) r \<and>
      char_filter (icontains casefold) (\<lambda>r. Some (generic_name (inventory_drug r))) (drug_name ps) r \<and>
      char_filter (icontains casefold) (\<lambda>r. brand_name (inventory_drug r)) (drug_brand_name ps) r \<and>
      char_filter (icontains casefold) (\<lambda>r. Some (form (inventory_drug r))) (drug_form ps) r \<and>
      char_filter exact (\<lambda>r. Some (irc (inventory_drug r))) (drug_irc ps) r \<and>
      char_filter (icontains casefold)
        (\<lambda>r. Some (manufacturer_name (drug_manufacturer (inventory_drug r))))
        (manufacturer_name_param ps) r \<and>
      exact_filter (\<lambda>r. pharmacy_id (inventory_pharmacy r)) (pharmacy ps) r \<and>
      char_filter (icontains casefold) (\<lambda>r. Some (pharmacy_name (inventory_pharmacy r)))
        (pharmacy_name_param ps) r \<and>
      exact_filter (\<lambda>r. is_24_hours (inventory_pharmacy r)) (pharmacy_is_24_hours ps) r \<and>
      char_filter (icontains casefold) batch_number (batch_number_param ps) r \<and>
      range_filter expire_date (expire_date_after ps) (expire_date_before ps) r \<and>
      range_filter price (price_min ps) (price_max ps) r)"

definition location_filters :: "(pystr \<Rightarrow> pystr) \<Rightarrow> inventory_params \<Rightarrow> inventory \<Rightarrow> bool" where
  "location_filters casefold ps r =
     (char_filter (icontains casefold) pharmacy__location__name (location_district ps) r \<and>
      char_filter (icontains casefold) pharmacy__location__parent__name (location_city ps) r \<and>
      char_filter (icontains casefold) pharmacy__location__parent__parent__name
        (location_county ps) r \<and>
      char_filter (icontains casefold) pharmacy__location__parent__parent__parent__name
        (location_province ps) r)"

text \<open>
  \<open>FilterSet.filter_queryset\<close>: every declared filter is applied in turn, so a row
  is kept when it passes all of them.
\<close>

definition filter_queryset ::
  "(pystr \<Rightarrow> pystr) \<Rightarrow> inventory_params \<Rightarrow> inventory list \<Rightarrow> inventory list"
where
  "filter_queryset casefold ps rows =
     filter (\<lambda>r. other_filters casefold ps r \<and> location_filters casefold ps r \<and>
                 has_stock_filter (has_stock ps) r) rows"

text \<open>
  ASCII letters to upper case, any other code point kept: the folding of a database that
  ignores the case of ASCII letters only, and the measure of what ignoring that case means.
\<close>

definition ascii_upper :: "pystr \<Rightarrow> pystr" where
  "ascii_upper s = map (\<lambda>c. if 97 \<le> c \<and> c \<le> 122 then c - 32 else c) s"

section \<open>JSON values and \<open>json.dumps\<close>\<close>

text \<open>
  The values \<open>json.loads\<close> returns. An object is a \<open>dict\<close>: its keys are distinct
  and keep their insertion order. A float is carried as the text \<open>repr\<close> prints for
  it; floating-point arithmetic is not modelled.
\<close>

datatype json =
  JNull
| JBool bool
| JInt int
| JFloat pystr
| JStr pystr
| JArr "json list"
| JObj "(pystr \<times> json) list"

fun digits10 :: "nat \<Rightarrow> pystr" where
  "digits10 n = (if n < 10 then [48 + n] else digits10 (n div 10) @ [48 + n mod 10])"

definition str_int :: "int \<Rightarrow> pystr" where
  "str_int i = (if i < 0 then 45 # digits10 (nat (- i)) else digits10 (nat i))"

definition hexdigit :: "nat \<Rightarrow> nat" where
  "hexdigit d = (if d < 10 then 48 + d else 87 + d)"

text \<open>\<open>'\\u{0:04x}'.format(n)\<close> for \<open>n < 0x10000\<close>.\<close>

definition u_escape :: "nat \<Rightarrow> pystr" where
  "u_escape n =
     [92, 117, hexdigit (n div 4096 mod 16), hexdigit (n div 256 mod 16),
      hexdigit (n div 16 mod 16), hexdigit (n mod 16)]"

text \<open>
  \<open>json.encoder.py_encode_basestring_ascii\<close>, the string encoder of \<open>json.dumps\<close>
  with its default \<open>ensure_ascii=True\<close>: the quote, the backslash and the short
  control escapes, every other code point outside \<open>' '..'~'\<close> as \<open>\\uXXXX\<close>
  (a surrogate pair beyond the basic plane).
\<close>

definition escape_char :: "nat \<Rightarrow> pystr" where
  "escape_char c =
     (if c = 92 then [92, 92]
      else if c = 34 then [92, 34]
      else if c = 8 then [92, 98]
      else if c = 12 then [92, 102]
      else if c = 10 then [92, 110]
      else if c = 13 then [92, 114]
      else if c = 9 then [92, 116]
      else if 32 \<le> c \<and> c \<le> 126 then [c]
      else if c < 65536 then u_escape c
      else u_escape (55296 + (c - 65536) div 1024 mod 1024) @
           u_escape (56320 + (c - 65536) mod 1024))"

definition encode_basestring_ascii :: "pystr \<Rightarrow> pystr" where
  "encode_basestring_ascii s = [34] @ concat (map escape_char s) @ [34]"

text \<open>\<open>sep.join(items)\<close>.\<close>

fun join :: "pystr \<Rightarrow> pystr list \<Rightarrow> pystr" where
  "join sep [] = []"
| "join sep [x] = x"
| "join sep (x # y # ys) = x @ sep @ join sep (y # ys)"

definition dumps_item :: "pystr \<times> pystr \<Rightarrow> pystr" where
  "dumps_item kv = encode_basestring_ascii (fst kv) @ ascii '': '' @ snd kv"

text \<open>\<open>json.dumps\<close> with its default separators \<open>', '\<close> and \<open>': '\<close>.\<close>

primrec json_dumps :: "json \<Rightarrow> pystr" where
  "json_dumps JNull = ascii ''null''"
| "json_dumps (JBool b) = (if b then ascii ''true'' else ascii ''false'')"
| "json_dumps (JInt i) = str_int i"
| "json_dumps (JFloat r) = r"
| "json_dumps (JStr s) = encode_basestring_ascii s"
| "json_dumps (JArr xs) = ascii ''['' @ join (ascii '', '') (map json_dumps xs) @ ascii '']''"
| "json_dumps (JObj kvs) =
     ascii ''{'' @
     join (ascii '', '') (map dumps_item (map (map_prod (\<lambda>k. k) json_dumps) kvs)) @
     ascii ''}''"

section \<open>Requests\<close>

text \<open>
  A \<open>QueryDict\<close>: each key with the list of its values, keys in the order of their first
  appearance. A parsed query string gives every key at least one value.
\<close>

type_synonym querydict = "(pystr \<times> pystr list) list"

text \<open>\<open>QueryDict.get(key)\<close>: the last value of the key, \<open>None\<close> without one.\<close>

definition querydict_get :: "querydict \<Rightarrow> pystr \<Rightarrow> pystr option" where
  "querydict_get q k =
     (case map_of q k of
        None \<Rightarrow> None
      | Some vs \<Rightarrow> if vs = [] then None else Some (last vs))"

text \<open>
  What \<open>json.dumps\<close> sees of a \<open>QueryDict\<close>: it reads the mapping through \<open>items()\<close>,
  which gives each key with its last value (with \<open>[]\<close> for an empty list of values).
\<close>

definition querydict_json :: "querydict \<Rightarrow> json" where
  "querydict_json q =
     JObj (map (\<lambda>(k, vs). (k, if vs = [] then JArr [] else JStr (last vs))) q)"

text \<open>
  \<open>request.body\<close>, by what \<open>json.loads\<close> makes of it: the empty byte string; a
  non-empty byte string that \<open>json.loads\<close> rejects with \<open>JSONDecodeError\<close> or
  \<open>UnicodeDecodeError\<close>; a non-empty byte string that it parses to a value.
\<close>

datatype body = Empty | Undecodable | Decodes json

text \<open>
  The request as the two recorders read it. \<open>request_user\<close> is \<open>request.user\<close> once
  the view has run; \<open>HTTP_X_FORWARDED_FOR\<close> and \<open>REMOTE_ADDR\<close> are the entries of
  \<open>request.META\<close>, \<open>None\<close> when the key is missing; \<open>QUERY_STRING\<close> is the raw
  query string that \<open>GET\<close> was parsed from. \<open>http_method\<close> is \<open>request.method\<close>.
\<close>

record request =
  path :: pystr
  http_method :: pystr
  QUERY_STRING :: pystr
  GET :: querydict
  body :: body
  content_type :: pystr
  request_user :: principal
  HTTP_X_FORWARDED_FOR :: "pystr option"
  REMOTE_ADDR :: "pystr option"

text \<open>
  The response: its status code and, for a list endpoint, the rows it returns.
\<close>

record response =
  status_code :: nat
  data :: "inventory list"

text \<open>
  The exceptions of the modelled code. \<open>NotFound\<close>, \<open>MethodNotAllowed\<close>,
  \<open>BadRequest\<close> and \<open>PermissionDenied\<close> are HTTP errors of the framework.
  \<open>IntegrityError\<close> is the violated NOT NULL constraint; \<open>DatabaseError\<close> stands
  for any other refusal of the database.
\<close>

datatype py_exception =
  TypeError | ValueError | IntegrityError | DatabaseError
| NotFound | MethodNotAllowed | BadRequest | PermissionDenied

text \<open>\<open>request.user if request.user.is_authenticated else None\<close>.\<close>

fun authenticated_user :: "principal \<Rightarrow> user option" where
  "authenticated_user AnonymousUser = None"
| "authenticated_user (StoredUser u) = Some u"

text \<open>\<open>s.split(',')[0]\<close>.\<close>

definition first_token :: "pystr \<Rightarrow> pystr" where
  "first_token s = takeWhile (\<lambda>c. c \<noteq> 44) s"

section \<open>Storing a client address (models.py)\<close>

text \<open>
  Both log tables keep the client address in a \<open>GenericIPAddressField\<close> that is not
  nullable (models.py 143 and 156). On a write the field prepares the value: a non-empty
  value with a colon goes through Django's \<open>clean_ipv6_address\<close>, here the parameter
  \<open>clean_ipv6\<close> (it normalises an IPv6 address and gives any other text back); the
  database layer then stores an empty string as NULL. \<open>None\<close> is a NULL.
\<close>

definition ip_db_value :: "(pystr \<Rightarrow> pystr) \<Rightarrow> pystr option \<Rightarrow> pystr option" where
  "ip_db_value clean_ipv6 ip_address =
     (case ip_address of
        None \<Rightarrow> None
      | Some v \<Rightarrow>
          (let w = (if v \<noteq> [] \<and> 58 \<in> set v then clean_ipv6 v else v)
           in if w = [] then None else Some w))"

section \<open>The audit recorder (middleware.py)\<close>

record request_log =
  rl_user :: "user option"
  rl_endpoint :: pystr
  rl_method :: pystr
  rl_request_payload :: pystr
  rl_response_status :: nat
  rl_ip_address :: "pystr option"
  rl_timestamp :: nat

definition exclude_paths :: "pystr list" where
  "exclude_paths = [ascii ''/api/swagger/'', ascii ''/api/redoc/'']"

text \<open>Lines 30 to 34 of middleware.py.\<close>

definition middleware_ip_address :: "request \<Rightarrow> pystr option" where
  "middleware_ip_address req =
     (case HTTP_X_FORWARDED_FOR req of
        None \<Rightarrow> REMOTE_ADDR req
      | Some x_forwarded_for \<Rightarrow>
          if x_forwarded_for \<noteq> [] then Some (first_token x_forwarded_for)
          else REMOTE_ADDR req)"

text \<open>
  Lines 46 and 47: \<open>if 'password' in payload: payload['password'] = '********'\<close>, on
  whatever \<open>json.loads\<close> returned. On a dict this tests the keys and stores the marker
  under the key. On a list the test looks for an element equal to \<open>'password'\<close> and on
  a string for a substring; when it succeeds the assignment raises \<open>TypeError\<close>. On a
  number, a boolean or \<open>None\<close> the test itself raises \<open>TypeError\<close>.
\<close>

fun censor :: "json \<Rightarrow> py_exception + json" where
  "censor (JObj kvs) =
     (if ascii ''password'' \<in> fst ` set kvs
      then Inr (JObj (AList.update (ascii ''password'') (JStr (ascii ''********'')) kvs))
      else Inr (JObj kvs))"
| "censor (JArr xs) =
     (if JStr (ascii ''password'') \<in> set xs then Inl TypeError else Inr (JArr xs))"
| "censor (JStr s) =
     (if sublist (ascii ''password'') s then Inl TypeError else Inr (JStr s))"
| "censor JNull = Inl TypeError"
| "censor (JBool b) = Inl TypeError"
| "censor (JInt i) = Inl TypeError"
| "censor (JFloat r) = Inl TypeError"

text \<open>
  Lines 37 to 53: the payload to record. \<open>Inl\<close> is an exception that the
  \<open>except (json.JSONDecodeError, UnicodeDecodeError)\<close> clause does not catch.
\<close>

definition request_payload :: "request \<Rightarrow> py_exception + pystr" where
  "request_payload req =
     (if http_method req = ascii ''GET'' \<and> GET req \<noteq> [] then
        Inr (json_dumps (querydict_json (GET req)))
      else
        (case body req of
           Empty \<Rightarrow> Inr []
         | Undecodable \<Rightarrow>
             if sublist (ascii ''application/json'') (content_type req)
             then Inr (ascii ''Could not decode request body.'')
             else Inr (ascii ''Non-JSON body (Content-Type: '' @ content_type req @ ascii '')'')
         | Decodes payload \<Rightarrow>
             if sublist (ascii ''application/json'') (content_type req)
             then (case censor payload of
                     Inl e \<Rightarrow> Inl e
                   | Inr payload' \<Rightarrow> Inr (json_dumps payload'))
             else Inr (ascii ''Non-JSON body (Content-Type: '' @ content_type req @ ascii '')'')))"

text \<open>
  \<open>RequestLog.objects.create(...)\<close>: a NULL address violates the column's NOT NULL
  constraint and raises \<open>IntegrityError\<close>. What else the database refuses (text too
  long for a column or no address where the backend types the column, a user that the
  same request has deleted) depends on the backend and on the other tables, which the
  model does not hold: \<open>db_accepts\<close> says whether the database takes the prepared
  row, and a refusal is a \<open>DatabaseError\<close>. A failed write leaves the table as it was.
\<close>

definition request_log_create ::
  "(pystr \<Rightarrow> pystr) \<Rightarrow> (request_log \<Rightarrow> bool) \<Rightarrow> request_log \<Rightarrow> request_log list \<Rightarrow>
     py_exception + request_log list"
where
  "request_log_create clean_ipv6 db_accepts row logs =
     (case ip_db_value clean_ipv6 (rl_ip_address row) of
        None \<Rightarrow> Inl IntegrityError
      | Some ip \<Rightarrow>
          (let stored = row\<lparr>rl_ip_address := Some ip\<rparr>
           in if db_accepts stored then Inr (logs @ [stored]) else Inl DatabaseError))"

text \<open>
  \<open>RequestLogMiddleware.__call__\<close>. \<open>get_response\<close> is the rest of the request
  handling, \<open>now\<close> the time of the write, \<open>logs\<close> the request-log table. The result
  is the response, or the exception that leaves \<open>__call__\<close>, and the table afterwards.
\<close>

definition middleware_call ::
  "(pystr \<Rightarrow> pystr) \<Rightarrow> (request_log \<Rightarrow> bool) \<Rightarrow> (request \<Rightarrow> response) \<Rightarrow> nat \<Rightarrow>
     request \<Rightarrow> request_log list \<Rightarrow> (py_exception + response) \<times> request_log list"
where
  "middleware_call clean_ipv6 db_accepts get_response now req logs =
     (let resp = get_response req
      in if prefix (ascii ''/api/'') (path req) \<and> path req \<notin> set exclude_paths \<and>
            http_method req \<noteq> ascii ''OPTIONS''
         then
           (let u = authenticated_user (request_user req);
                ip = middleware_ip_address req
            in case request_payload req of
                 Inl e \<Rightarrow> (Inl e, logs)
               | Inr payload \<Rightarrow>
                   (case request_log_create clean_ipv6 db_accepts
                           \<lparr>rl_user = u, rl_endpoint = path req, rl_method = http_method req,
                            rl_request_payload = payload,
                            rl_response_status = status_code resp,
                            rl_ip_address = ip, rl_timestamp = now\<rparr> logs of
                      Inl e \<Rightarrow> (Inl e, logs)
                    | Inr logs' \<Rightarrow> (Inr resp, logs')))
         else (Inr resp, logs))"

section \<open>The search recorder (views.py)\<close>


















section \<open>Pagination (pagination.py)\<close>

text \<open>
  The pagination code reads its parameters with two built-ins of the interpreter,
  \<open>str.isdigit\<close> and \<open>int\<close> on a string. They are parameters of the model:
  \<open>isdigit\<close>, and \<open>int_of\<close>, where \<open>None\<close> is the \<open>ValueError\<close> of \<open>int\<close>.
\<close>

text \<open>The attributes of \<open>CustomPagination\<close>.\<close>

definition page_size :: nat where
  "page_size = 5"

definition page_size_query_param :: pystr where
  "page_size_query_param = ascii ''limit''"

definition max_page_size :: nat where
  "max_page_size = 100"

definition page_query_param :: pystr where
  "page_query_param = ascii ''page''"

text \<open>
  \<open>rest_framework.pagination._positive_int\<close> with \<open>strict=True\<close>; \<open>None\<close> is
  \<open>ValueError\<close>.
\<close>

definition positive_int :: "(pystr \<Rightarrow> int option) \<Rightarrow> pystr \<Rightarrow> nat \<Rightarrow> nat option" where
  "positive_int int_of integer_string cutoff =
     (case int_of integer_string of
        None \<Rightarrow> None
      | Some ret \<Rightarrow> if ret \<le> 0 then None else Some (min (nat ret) cutoff))"

text \<open>
  \<open>PageNumberPagination.get_page_size\<close>: the \<open>limit\<close> parameter when it is a
  positive integer, cut off at \<open>max_page_size\<close>; the default \<open>page_size\<close> when it
  is missing or not a positive integer.
\<close>

definition get_page_size :: "(pystr \<Rightarrow> int option) \<Rightarrow> querydict \<Rightarrow> nat" where
  "get_page_size int_of query_params =
     (case querydict_get query_params page_size_query_param of
        None \<Rightarrow> page_size
      | Some integer_string \<Rightarrow>
          (case positive_int int_of integer_string max_page_size of
             None \<Rightarrow> page_size
           | Some n \<Rightarrow> n))"

text \<open>\<open>Paginator.num_pages\<close>, with no orphans and an empty first page allowed.\<close>

definition num_pages :: "nat \<Rightarrow> nat \<Rightarrow> nat" where
  "num_pages count per_page = (max 1 count + per_page - 1) div per_page"

text \<open>
  \<open>PageNumberPagination.get_page_number\<close> followed by \<open>Paginator.validate_number\<close>:
  page 1 without a \<open>page\<close> value, the last page for \<open>'last'\<close>, else the integer read
  from the value; \<open>NotFound\<close> when it is no integer or outside \<open>1..num_pages\<close>.
\<close>

definition get_page_number ::
  "(pystr \<Rightarrow> int option) \<Rightarrow> querydict \<Rightarrow> nat \<Rightarrow> py_exception + nat"
where
  "get_page_number int_of query_params pages =
     (case querydict_get query_params page_query_param of
        None \<Rightarrow> Inr 1
      | Some s \<Rightarrow>
          if s = [] then Inr 1
          else if s = ascii ''last'' then Inr pages
          else (case int_of s of
                  None \<Rightarrow> Inl NotFound
                | Some n \<Rightarrow> if n < 1 \<or> int pages < n then Inl NotFound else Inr (nat n)))"

text \<open>
  \<open>PageNumberPagination.paginate_queryset\<close>: the rows of the requested page.
\<close>

definition super_paginate_queryset ::
  "(pystr \<Rightarrow> int option) \<Rightarrow> 'a list \<Rightarrow> querydict \<Rightarrow> py_exception + 'a list option"
where
  "super_paginate_queryset int_of queryset query_params =
     (let per_page = get_page_size int_of query_params
      in if per_page = 0 then Inr None
         else (case get_page_number int_of query_params (num_pages (length queryset) per_page) of
                 Inl e \<Rightarrow> Inl e
               | Inr number \<Rightarrow>
                   Inr (Some (take per_page (drop ((number - 1) * per_page) queryset)))))"

text \<open>
  \<open>CustomPagination.paginate_queryset\<close>: \<open>Inr None\<close> tells the view not to paginate.
  The test is \<open>page_number and page_number.isdigit() and int(page_number) == 0\<close>; a
  \<open>ValueError\<close> of \<open>int\<close> is not caught.
\<close>

definition paginate_queryset ::
  "(pystr \<Rightarrow> bool) \<Rightarrow> (pystr \<Rightarrow> int option) \<Rightarrow> 'a list \<Rightarrow> querydict \<Rightarrow>
     py_exception + 'a list option"
where
  "paginate_queryset isdigit int_of queryset query_params =
     (case querydict_get query_params page_query_param of
        None \<Rightarrow> super_paginate_queryset int_of queryset query_params
      | Some page_number \<Rightarrow>
          if page_number \<noteq> [] \<and> isdigit page_number then
            (case int_of page_number of
               None \<Rightarrow> Inl ValueError
             | Some n \<Rightarrow>
                 if n = 0 then Inr None
                 else super_paginate_queryset int_of queryset query_params)
          else super_paginate_queryset int_of queryset query_params)"

text \<open>
  The rows that the inherited \<open>list\<close> of a view paginated by \<open>CustomPagination\<close>
  returns (\<open>ListModelMixin.list\<close>): the whole queryset when the paginator returns
  \<open>None\<close>, the page otherwise. Which views use the class is a matter of the project's
  settings, which the repository does not hold.
\<close>

definition list_rows ::
  "(pystr \<Rightarrow> bool) \<Rightarrow> (pystr \<Rightarrow> int option) \<Rightarrow> 'a list \<Rightarrow> querydict \<Rightarrow> py_exception + 'a list"
where
  "list_rows isdigit int_of queryset query_params =
     (case paginate_queryset isdigit int_of queryset query_params of
        Inl e \<Rightarrow> Inl e
      | Inr None \<Rightarrow> Inr queryset
      | Inr (Some page) \<Rightarrow> Inr page)"

section \<open>The claims' words\<close>







section \<open>Example data\<close>

definition tehran_province :: location where
  "tehran_province = Location (ascii ''Tehran Province'') Ostan None"

definition tehran_county :: location where
  "tehran_county = Location (ascii ''Tehran County'') Shahrestan (Some tehran_province)"

definition tehran_city :: location where
  "tehran_city = Location (ascii ''Tehran'') Shahr (Some tehran_county)"

definition district_one :: location where
  "district_one = Location (ascii ''District 1'') Mantaqeh (Some tehran_city)"

definition rename_only :: data where
  "rename_only = \<lparr>data_name = Some (ascii ''Tehran City''), data_type = None, data_parent = None\<rparr>"

definition acme :: manufacturer where
  "acme = \<lparr>manufacturer_name = ascii ''Acme'', country = ascii ''IR''\<rparr>"

definition aspirin :: drug where
  "aspirin =
     \<lparr>drug_id = 1, generic_name = ascii ''Aspirin'', brand_name = None, irc = ascii ''IRC1'',
      form = ascii ''Tablet'', drug_manufacturer = acme\<rparr>"

definition district_pharmacy :: pharmacy where
  "district_pharmacy =
     \<lparr>pharmacy_id = 1, pharmacy_name = ascii ''Central'', is_24_hours = True,
      pharmacy_location = district_one\<rparr>"


definition stock :: "nat \<Rightarrow> pharmacy \<Rightarrow> inventory" where
  "stock n ph =
     \<lparr>inventory_drug = aspirin, inventory_pharmacy = ph, batch_number = None,
      expire_date = 0, quantity = n, price = 1\<rparr>"

definition lone_district :: location where
  "lone_district = Location (ascii ''D1'') Mantaqeh None"

definition city_under_district :: data where
  "city_under_district =
     \<lparr>data_name = Some (ascii ''Tehran''), data_type = Some Shahr,
      data_parent = Some (Some lone_district)\<rparr>"

definition demoted :: user where
  "demoted =
     \<lparr>contact_number = ascii ''0911'', user_role = Some \<lparr>role_name = ascii ''User''\<rparr>,
      is_staff = True, is_superuser = True\<rparr>"

text \<open>
  The values of \<open>str.isdigit\<close> and \<open>int\<close> on the three strings that the examples
  read, \<open>'0'\<close>, \<open>'7'\<close> and \<open>'1000'\<close>.
\<close>

definition example_isdigit :: "pystr \<Rightarrow> bool" where
  "example_isdigit s = (s \<in> set [ascii ''0'', ascii ''7'', ascii ''1000''])"

definition example_int :: "pystr \<Rightarrow> int option" where
  "example_int s = map_of [(ascii ''0'', 0), (ascii ''7'', 7), (ascii ''1000'', 1000)] s"



definition number_body_request :: request where
  "number_body_request =
     \<lparr>path = ascii ''/api/drugs/'', http_method = ascii ''POST'', QUERY_STRING = [],
      GET = [], body = Decodes (JInt 5), content_type = ascii ''application/json'',
      request_user = AnonymousUser, HTTP_X_FORWARDED_FOR = None,
      REMOTE_ADDR = Some (ascii ''10.0.0.1'')\<rparr>"


section \<open>The location validator\<close>

lemma validate_accepts_iff:
  "(\<exists>r. validate inst d = Inr r) \<longleftrightarrow>
     spec_accepts (resulting_type inst d) (resulting_parent inst d)"
  by (cases "resulting_type inst d"; cases "resulting_parent inst d")
     (auto simp: validate_def spec_accepts_def Let_def)

lemma validate_error_field:
  "validate inst d = Inl e \<Longrightarrow> error_field e = ascii ''parent''"
  by (auto simp: validate_def Let_def split: if_splits option.splits)

lemma validate_returns_data:
  "validate inst d = Inr r \<Longrightarrow> r = d"
  by (auto simp: validate_def Let_def split: if_splits option.splits)

lemma hierarchy_get_table:
  "hierarchy_get (Some Mantaqeh) = Some Shahr \<and>
   hierarchy_get (Some Shahr) = Some Shahrestan \<and>
   hierarchy_get (Some Shahrestan) = Some Ostan \<and>
   (\<forall>t. t \<noteq> Mantaqeh \<and> t \<noteq> Shahr \<and> t \<noteq> Shahrestan \<longrightarrow> hierarchy_get (Some t) = None) \<and>
   hierarchy_get None = None"
  by (simp add: hierarchy_def Mantaqeh_def Shahr_def Shahrestan_def Ostan_def)

lemma msg_wrong_parent_names:
  "sublist (py_str t) (msg_wrong_parent t r p) \<and>
   sublist (py_str r) (msg_wrong_parent t r p) \<and>
   sublist p (msg_wrong_parent t r p)"
proof -
  have a: "sublist y (a @ x @ b @ y @ c)" for a x b c y :: pystr
    using sublist_appendI [of y "a @ x @ b" c] by simp
  have b: "sublist z (a @ x @ b @ y @ c @ z @ e)" for a x b c y z e :: pystr
    using sublist_appendI [of z "a @ x @ b @ y @ c" e] by simp
  show ?thesis
    unfolding msg_wrong_parent_def by (intro conjI sublist_appendI a b)
qed

text \<open>
  Claim C1. For the resulting pair of type and parent of a location write: a province is
  accepted exactly when it has no parent; any other type is rejected without a parent;
  with a parent it is accepted exactly when the type of the parent is the predecessor
  that the table (district: city, city: county, county: province) gives, and no type
  outside the table has one. Every rejection is a validation error on the field
  \<open>parent\<close>; the message of a parent-type mismatch contains the type, the expected
  parent type and the type of the offered parent. An accepted write returns its data.
\<close>

theorem validate_hierarchy:
  "(resulting_type inst d = Some Ostan \<longrightarrow>
      ((\<exists>r. validate inst d = Inr r) \<longleftrightarrow> resulting_parent inst d = None)) \<and>
   (resulting_type inst d \<noteq> Some Ostan \<and> resulting_parent inst d = None \<longrightarrow>
      (\<exists>e. validate inst d = Inl e)) \<and>
   (\<forall>q. resulting_type inst d \<noteq> Some Ostan \<and> resulting_parent inst d = Some q \<longrightarrow>
      ((\<exists>r. validate inst d = Inr r) \<longleftrightarrow>
         hierarchy_get (resulting_type inst d) = Some (location_type q))) \<and>
   (\<forall>q. resulting_type inst d \<noteq> Some Ostan \<and> resulting_parent inst d = Some q \<and>
        hierarchy_get (resulting_type inst d) \<noteq> Some (location_type q) \<longrightarrow>
      (\<exists>m. validate inst d = Inl (ValidationError (ascii ''parent'') m) \<and>
           sublist (py_str (resulting_type inst d)) m \<and>
           sublist (py_str (hierarchy_get (resulting_type inst d))) m \<and>
           sublist (location_type q) m)) \<and>
   (\<forall>e. validate inst d = Inl e \<longrightarrow> error_field e = ascii ''parent'') \<and>
   (\<forall>r. validate inst d = Inr r \<longrightarrow> r = d) \<and>
   hierarchy_get (Some Mantaqeh) = Some Shahr \<and>
   hierarchy_get (Some Shahr) = Some Shahrestan \<and>
   hierarchy_get (Some Shahrestan) = Some Ostan \<and>
   (\<forall>t. t \<noteq> Mantaqeh \<and> t \<noteq> Shahr \<and> t \<noteq> Shahrestan \<longrightarrow> hierarchy_get (Some t) = None)"
proof -
  have 1: "resulting_type inst d = Some Ostan \<longrightarrow>
      ((\<exists>r. validate inst d = Inr r) \<longleftrightarrow> resulting_parent inst d = None)"
    by (auto simp: validate_def Let_def)
  have 2: "resulting_type inst d \<noteq> Some Ostan \<and> resulting_parent inst d = None \<longrightarrow>
      (\<exists>e. validate inst d = Inl e)"
    by (auto simp: validate_def Let_def)
  have 3: "\<forall>q. resulting_type inst d \<noteq> Some Ostan \<and> resulting_parent inst d = Some q \<longrightarrow>
      ((\<exists>r. validate inst d = Inr r) \<longleftrightarrow>
         hierarchy_get (resulting_type inst d) = Some (location_type q))"
    by (auto simp: validate_def Let_def)
  have 4: "\<forall>q. resulting_type inst d \<noteq> Some Ostan \<and> resulting_parent inst d = Some q \<and>
        hierarchy_get (resulting_type inst d) \<noteq> Some (location_type q) \<longrightarrow>
      (\<exists>m. validate inst d = Inl (ValidationError (ascii ''parent'') m) \<and>
           sublist (py_str (resulting_type inst d)) m \<and>
           sublist (py_str (hierarchy_get (resulting_type inst d))) m \<and>
           sublist (location_type q) m)"
    using msg_wrong_parent_names by (auto simp: validate_def Let_def)
  have 5: "\<forall>e. validate inst d = Inl e \<longrightarrow> error_field e = ascii ''parent''"
    using validate_error_field by blast
  have 6: "\<forall>r. validate inst d = Inr r \<longrightarrow> r = d"
    using validate_returns_data by blast
  from 1 2 3 4 5 6 hierarchy_get_table show ?thesis by blast
qed

theorem validate_hierarchy_witness:
  "\<exists>m. validate None city_under_district = Inl (ValidationError (ascii ''parent'') m) \<and>
       sublist Shahr m \<and> sublist Shahrestan m \<and> sublist Mantaqeh m"
proof -
  have t: "resulting_type None city_under_district = Some Shahr"
    by (simp add: resulting_type_def city_under_district_def)
  have p: "resulting_parent None city_under_district = Some lone_district"
    by (simp add: resulting_parent_def city_under_district_def)
  have n: "Some Shahr \<noteq> Some Ostan" "Shahrestan \<noteq> Mantaqeh"
    by (simp_all add: Shahr_def Ostan_def Shahrestan_def Mantaqeh_def)
  have h: "map_of hierarchy Shahr = Some Shahrestan"
    by (simp add: hierarchy_def Shahr_def Mantaqeh_def)
  show ?thesis
    using validate_hierarchy [of None city_under_district] t p n h
    by (simp add: lone_district_def)
qed


text \<open>
  Claim C7. On an update the validator decides from the resulting pair alone: a field
  that the request leaves out falls back to the stored value, a field that it carries
  wins, two updates with the same resulting pair get the same decision, and an update
  that carries neither \<open>type\<close> nor \<open>parent\<close> is accepted exactly when the stored
  pair satisfies the hierarchy rules.
\<close>

theorem validate_update_resulting_pair:
  "(data_type d = None \<longrightarrow> resulting_type (Some l) d = Some (location_type l)) \<and>
   (data_parent d = None \<longrightarrow> resulting_parent (Some l) d = location_parent l) \<and>
   (\<forall>t. data_type d = Some t \<longrightarrow> resulting_type (Some l) d = Some t) \<and>
   (\<forall>p. data_parent d = Some p \<longrightarrow> resulting_parent (Some l) d = p) \<and>
   ((\<exists>r. validate (Some l) d = Inr r) \<longleftrightarrow>
      spec_accepts (resulting_type (Some l) d) (resulting_parent (Some l) d)) \<and>
   (\<forall>l' d'. resulting_type (Some l') d' = resulting_type (Some l) d \<and>
            resulting_parent (Some l') d' = resulting_parent (Some l) d \<longrightarrow>
      ((\<exists>r. validate (Some l') d' = Inr r) \<longleftrightarrow> (\<exists>r. validate (Some l) d = Inr r))) \<and>
   (data_type d = None \<and> data_parent d = None \<longrightarrow>
      ((\<exists>r. validate (Some l) d = Inr r) \<longleftrightarrow>
         spec_accepts (Some (location_type l)) (location_parent l)))"
proof -
  have 1: "data_type d = None \<longrightarrow> resulting_type (Some l) d = Some (location_type l)"
    by (simp add: resulting_type_def)
  have 2: "data_parent d = None \<longrightarrow> resulting_parent (Some l) d = location_parent l"
    by (simp add: resulting_parent_def)
  have 3: "\<forall>t. data_type d = Some t \<longrightarrow> resulting_type (Some l) d = Some t"
    by (simp add: resulting_type_def)
  have 4: "\<forall>p. data_parent d = Some p \<longrightarrow> resulting_parent (Some l) d = p"
    by (simp add: resulting_parent_def)
  have 5: "(\<exists>r. validate (Some l') d' = Inr r) \<longleftrightarrow>
      spec_accepts (resulting_type (Some l') d') (resulting_parent (Some l') d')" for l' d'
    by (rule validate_accepts_iff)
  have 6: "\<forall>l' d'. resulting_type (Some l') d' = resulting_type (Some l) d \<and>
            resulting_parent (Some l') d' = resulting_parent (Some l) d \<longrightarrow>
      ((\<exists>r. validate (Some l') d' = Inr r) \<longleftrightarrow> (\<exists>r. validate (Some l) d = Inr r))"
    by (simp add: 5)
  have 7: "data_type d = None \<and> data_parent d = None \<longrightarrow>
      ((\<exists>r. validate (Some l) d = Inr r) \<longleftrightarrow>
         spec_accepts (Some (location_type l)) (location_parent l))"
    using 1 2 by (simp add: 5)
  show ?thesis
    by (intro conjI 1 2 3 4 5 6 7)
qed

theorem validate_update_resulting_pair_witness:
  "(\<exists>r. validate (Some tehran_city) rename_only = Inr r) \<and>
   spec_accepts (Some Shahr) (Some tehran_county)"
proof -
  have a: "spec_accepts (Some (location_type tehran_city)) (location_parent tehran_city)"
    by (simp add: spec_accepts_def tehran_city_def tehran_county_def hierarchy_def
        Shahr_def Ostan_def Mantaqeh_def Shahrestan_def)
  have b: "data_type rename_only = None \<and> data_parent rename_only = None"
    by (simp add: rename_only_def)
  show ?thesis
    using validate_update_resulting_pair [of rename_only tehran_city] a b
    by (simp add: tehran_city_def)
qed

section \<open>Users and the admin permission\<close>

text \<open>
  Claim C10. After a save, \<open>is_staff\<close> and \<open>is_superuser\<close> both say whether the
  role of the user is named Admin, whatever they were before. The permission grants
  access exactly to authenticated users that are superusers or have the Admin role; for a
  saved user the two coincide.
\<close>

theorem save_sets_admin_flags:
  "is_staff (save u) = role_is_admin u \<and>
   is_superuser (save u) = role_is_admin u \<and>
   user_role (save u) = user_role u \<and>
   role_is_admin u = (\<exists>r. user_role u = Some r \<and> role_name r = ascii ''Admin'') \<and>
   has_permission p =
     (\<exists>v. p = Some (StoredUser v) \<and> is_authenticated (StoredUser v) \<and>
          (is_superuser v \<or> role_is_admin v)) \<and>
   has_permission (Some (StoredUser (save u))) = is_superuser (save u) \<and>
   has_permission (Some (StoredUser (save u))) = role_is_admin (save u)"
proof -
  have r: "role_is_admin (save u) = role_is_admin u"
    by (simp add: save_def role_is_admin_def)
  have f: "is_staff (save u) = role_is_admin u" "is_superuser (save u) = role_is_admin u"
    "user_role (save u) = user_role u"
    by (simp_all add: save_def)
  have d: "role_is_admin u = (\<exists>r. user_role u = Some r \<and> role_name r = ascii ''Admin'')"
    by (cases "user_role u") (simp_all add: role_is_admin_def)
  have p: "has_permission p =
     (\<exists>v. p = Some (StoredUser v) \<and> is_authenticated (StoredUser v) \<and>
          (is_superuser v \<or> role_is_admin v))"
    by (cases p rule: has_permission.cases) simp_all
  from r f d p show ?thesis by simp
qed

theorem save_sets_admin_flags_witness:
  "is_superuser demoted \<and> \<not> is_superuser (save demoted) \<and> \<not> is_staff (save demoted) \<and>
   \<not> has_permission (Some (StoredUser (save demoted)))"
  using save_sets_admin_flags [of demoted "Some (StoredUser (save demoted))"]
  by (simp add: demoted_def role_is_admin_def ascii_def)

section \<open>The inventory search\<close>






text \<open>
  Claim C3, at the input where the code departs from it: with \<open>has_stock=true\<close> a row
  of quantity 1 is not returned, although its quantity is greater than zero.
\<close>

theorem has_stock_true_drops_quantity_one:
  "filter_queryset casefold (no_params\<lparr>has_stock := Some True\<rparr>) [stock 1 district_pharmacy] = []"
  by (simp add: filter_queryset_def has_stock_filter_def int_of_bool_def stock_def)

text \<open>
  Claim C9. The filter compares the quantity with the supplied boolean by strict
  greater-than, so with either value of \<open>has_stock\<close> no returned row has quantity
  zero: \<open>false\<close> selects the rows above 0 and \<open>true\<close> the rows above 1.
\<close>

theorem has_stock_excludes_zero_quantity:
  "(has_stock ps = Some b \<longrightarrow>
      (\<forall>r \<in> set (filter_queryset casefold ps rows). quantity r \<noteq> 0)) \<and>
   has_stock_filter (Some b) r = (int_of_bool b < quantity r) \<and>
   int_of_bool False = 0 \<and> int_of_bool True = 1"
  by (auto simp: filter_queryset_def has_stock_filter_def int_of_bool_def)

theorem has_stock_excludes_zero_quantity_witness:
  "filter_queryset ascii_upper (no_params\<lparr>has_stock := Some False\<rparr>)
     [stock 0 district_pharmacy, stock 4 district_pharmacy] = [stock 4 district_pharmacy]"
proof -
  have e: "filter_queryset ascii_upper (no_params\<lparr>has_stock := Some False\<rparr>)
     [stock 0 district_pharmacy, stock 4 district_pharmacy] = [stock 4 district_pharmacy]"
    by (simp add: filter_queryset_def other_filters_def location_filters_def
        has_stock_filter_def int_of_bool_def no_params_def char_filter_def exact_filter_def
        range_filter_def stock_def)
  have h: "has_stock (no_params\<lparr>has_stock := Some False\<rparr>) = Some False"
    by simp
  show ?thesis
    using has_stock_excludes_zero_quantity [of "no_params\<lparr>has_stock := Some False\<rparr>" False
        ascii_upper "[stock 0 district_pharmacy, stock 4 district_pharmacy]"] h e
    by simp
qed

section \<open>The audit recorder\<close>












text \<open>
  Claim C6, at the input where the code departs from it: a POST under \<open>/api/\<close> whose
  JSON body is the number 5 raises \<open>TypeError\<close> in the test for a password field;
  the exception leaves \<open>__call__\<close> and no row is written.
\<close>

theorem number_body_leaves_no_row:
  "middleware_call clean_ipv6 db_accepts get_response now number_body_request logs =
     (Inl TypeError, logs)"
  by (simp add: middleware_call_def request_payload_def number_body_request_def
      exclude_paths_def ascii_def Let_def)

section \<open>The search recorder\<close>









section \<open>Pagination\<close>

lemma get_page_size_bounds: "1 \<le> get_page_size int_of q \<and> get_page_size int_of q \<le> 100"
  by (auto simp: get_page_size_def positive_int_def page_size_def max_page_size_def
      split: option.splits if_splits)

lemma page_zero_unpaginated:
  "querydict_get q page_query_param = Some s \<Longrightarrow> s \<noteq> [] \<Longrightarrow> isdigit s \<Longrightarrow>
     int_of s = Some 0 \<Longrightarrow> list_rows isdigit int_of rows q = Inr rows"
  by (simp add: list_rows_def paginate_queryset_def)

lemma no_page_first_page:
  "querydict_get q page_query_param = None \<Longrightarrow>
     list_rows isdigit int_of rows q = Inr (take (get_page_size int_of q) rows)"
  using get_page_size_bounds [of int_of q]
  by (auto simp: list_rows_def paginate_queryset_def super_paginate_queryset_def
      get_page_number_def Let_def)

lemma super_paginated_length:
  "super_paginate_queryset int_of rows q = Inr (Some pg) \<Longrightarrow>
     length pg \<le> get_page_size int_of q"
  by (auto simp: super_paginate_queryset_def Let_def split: if_splits sum.splits)

lemma paginated_length:
  "paginate_queryset isdigit int_of rows q = Inr (Some pg) \<Longrightarrow>
     length pg \<le> get_page_size int_of q"
  using super_paginated_length [of int_of rows q pg]
  by (auto simp: paginate_queryset_def split: if_splits option.splits)

text \<open>
  Claim C8, amended. For a list endpoint that paginates with \<open>CustomPagination\<close>: a
  request whose \<open>page\<close> value is a digit string that \<open>int\<close> reads as zero, such as
  \<open>page=0\<close>, gets the whole queryset. A request without \<open>page\<close> gets the first rows
  of the queryset up to the page size, which is 5 when \<open>limit\<close> is missing or is not
  read as a positive integer, and the value of \<open>limit\<close> cut off at 100 otherwise; so
  without \<open>page\<close> and \<open>limit\<close> it gets at most 5 rows, and exactly 5 when there
  are more. A page never has more rows than the page size, which never exceeds 100.
\<close>

theorem pagination_page_sizes:
  "(\<forall>s. querydict_get q page_query_param = Some s \<and> s \<noteq> [] \<and> isdigit s \<and>
        int_of s = Some 0 \<longrightarrow> list_rows isdigit int_of rows q = Inr rows) \<and>
   (isdigit (ascii ''0'') \<and> int_of (ascii ''0'') = Some 0 \<and>
    querydict_get q page_query_param = Some (ascii ''0'') \<longrightarrow>
      list_rows isdigit int_of rows q = Inr rows) \<and>
   (querydict_get q page_query_param = None \<longrightarrow>
      list_rows isdigit int_of rows q = Inr (take (get_page_size int_of q) rows)) \<and>
   (querydict_get q page_query_param = None \<and> querydict_get q page_size_query_param = None \<longrightarrow>
      list_rows isdigit int_of rows q = Inr (take 5 rows)) \<and>
   (querydict_get q page_size_query_param = None \<longrightarrow> get_page_size int_of q = 5) \<and>
   (\<forall>s. querydict_get q page_size_query_param = Some s \<and> int_of s = None \<longrightarrow>
      get_page_size int_of q = 5) \<and>
   (\<forall>s n. querydict_get q page_size_query_param = Some s \<and> int_of s = Some n \<and> n \<le> 0 \<longrightarrow>
      get_page_size int_of q = 5) \<and>
   (\<forall>s n. querydict_get q page_size_query_param = Some s \<and> int_of s = Some n \<and> 0 < n \<longrightarrow>
      get_page_size int_of q = min (nat n) 100) \<and>
   (\<forall>pg. paginate_queryset isdigit int_of rows q = Inr (Some pg) \<longrightarrow>
      length pg \<le> get_page_size int_of q \<and> get_page_size int_of q \<le> 100)"
proof -
  have 1: "\<forall>s. querydict_get q page_query_param = Some s \<and> s \<noteq> [] \<and> isdigit s \<and>
        int_of s = Some 0 \<longrightarrow> list_rows isdigit int_of rows q = Inr rows"
    using page_zero_unpaginated by blast
  have 2: "isdigit (ascii ''0'') \<and> int_of (ascii ''0'') = Some 0 \<and>
    querydict_get q page_query_param = Some (ascii ''0'') \<longrightarrow>
      list_rows isdigit int_of rows q = Inr rows"
    using page_zero_unpaginated [of q "ascii ''0''" isdigit int_of rows]
    by (simp add: ascii_def)
  have 3: "querydict_get q page_query_param = None \<longrightarrow>
      list_rows isdigit int_of rows q = Inr (take (get_page_size int_of q) rows)"
    using no_page_first_page by blast
  have 5: "querydict_get q page_size_query_param = None \<longrightarrow> get_page_size int_of q = 5"
    by (simp add: get_page_size_def page_size_def)
  have 4: "querydict_get q page_query_param = None \<and>
      querydict_get q page_size_query_param = None \<longrightarrow>
      list_rows isdigit int_of rows q = Inr (take 5 rows)"
    using 3 5 by simp
  have 6: "\<forall>s. querydict_get q page_size_query_param = Some s \<and> int_of s = None \<longrightarrow>
      get_page_size int_of q = 5"
    by (simp add: get_page_size_def positive_int_def page_size_def)
  have 7: "\<forall>s n. querydict_get q page_size_query_param = Some s \<and> int_of s = Some n \<and> n \<le> 0 \<longrightarrow>
      get_page_size int_of q = 5"
    by (simp add: get_page_size_def positive_int_def page_size_def)
  have 8: "\<forall>s n. querydict_get q page_size_query_param = Some s \<and> int_of s = Some n \<and> 0 < n \<longrightarrow>
      get_page_size int_of q = min (nat n) 100"
    by (simp add: get_page_size_def positive_int_def max_page_size_def)
  have 9: "\<forall>pg. paginate_queryset isdigit int_of rows q = Inr (Some pg) \<longrightarrow>
      length pg \<le> get_page_size int_of q \<and> get_page_size int_of q \<le> 100"
    using paginated_length get_page_size_bounds by blast
  show ?thesis
    by (intro conjI 1 2 3 4 5 6 7 8 9)
qed

theorem pagination_page_sizes_witness:
  "list_rows example_isdigit example_int [1, 2, 3, 4, 5, 6, 7 :: nat] [] = Inr [1, 2, 3, 4, 5] \<and>
   list_rows example_isdigit example_int [1, 2, 3, 4, 5, 6, 7 :: nat]
     [(ascii ''page'', [ascii ''0''])] = Inr [1, 2, 3, 4, 5, 6, 7] \<and>
   get_page_size example_int [(ascii ''limit'', [ascii ''1000''])] = 100"
proof -
  have a: "querydict_get [] page_query_param = None \<and>
      querydict_get [] page_size_query_param = None"
    by (simp add: querydict_get_def)
  have b: "querydict_get [(ascii ''page'', [ascii ''0''])] page_query_param = Some (ascii ''0'') \<and>
      example_isdigit (ascii ''0'') \<and> example_int (ascii ''0'') = Some 0"
    by code_simp
  have c: "querydict_get [(ascii ''limit'', [ascii ''1000''])] page_size_query_param =
      Some (ascii ''1000'') \<and> example_int (ascii ''1000'') = Some 1000 \<and> (0::int) < 1000"
    by code_simp
  show ?thesis
    using pagination_page_sizes [of "[]" example_isdigit example_int "[1, 2, 3, 4, 5, 6, 7 :: nat]"]
      pagination_page_sizes [of "[(ascii ''page'', [ascii ''0''])]" example_isdigit example_int
        "[1, 2, 3, 4, 5, 6, 7 :: nat]"]
      pagination_page_sizes [of "[(ascii ''limit'', [ascii ''1000''])]" example_isdigit example_int
        "[]::nat list"]
      a b c
    by simp
qed

text \<open>
  The claim as it was stated fails for a request without \<open>page\<close> that carries
  \<open>limit=7\<close>: of eight rows it gets seven, more than the default page size.
\<close>

theorem limit_without_page_counterexample:
  "querydict_get [(ascii ''limit'', [ascii ''7''])] page_query_param = None \<and>
   example_int (ascii ''7'') = Some 7 \<and>
   list_rows example_isdigit example_int [1, 2, 3, 4, 5, 6, 7, 8 :: nat]
     [(ascii ''limit'', [ascii ''7''])] = Inr [1, 2, 3, 4, 5, 6, 7]"
  by code_simp

end
